theory Spec2Isabelle
  imports Complex_Main
begin

section \<open>Data model\<close>

text \<open>
  An instant (\<^verbatim>\<open>time.Time\<close>) is an integer count of nanoseconds; \<^verbatim>\<open>Before\<close> is the
  strict order on instants. A \<^verbatim>\<open>time.Duration\<close> is an integer count of nanoseconds.
\<close>

type_synonym time = int
type_synonym duration = int

text \<open>
  Errors. \<^verbatim>\<open>errors.New\<close> and \<^verbatim>\<open>errors.Errorf\<close> build an error from a message,
  \<^verbatim>\<open>errors.Wrap\<close> and \<^verbatim>\<open>errors.Wrapf\<close> put a message around a cause. An error of the
  cluster API carries a status reason and an HTTP code, which is what
  \<^verbatim>\<open>apiErrors.IsNotFound\<close> and \<^verbatim>\<open>apiErrors.IsTooManyRequests\<close> read.
\<close>

datatype status_reason =
  StatusReasonNotFound | StatusReasonTooManyRequests | StatusReasonOther string

datatype error =
  New string
| Wrap error string
| StatusError status_reason int

fun IsNotFound :: "error \<Rightarrow> bool" where
  "IsNotFound (StatusError r c) = (r = StatusReasonNotFound)"
| "IsNotFound _ = False"

fun IsTooManyRequests :: "error \<Rightarrow> bool" where
  "IsTooManyRequests (StatusError r c) = (r = StatusReasonTooManyRequests \<or> c = 429)"
| "IsTooManyRequests _ = False"

text \<open>A call either returns, returns an error, or panics (index out of range).\<close>

datatype fault = Panic string | Err error

record Node =
  Name :: string
  CreationTimestamp :: time

text \<open>
  \<^verbatim>\<open>config.Settings\<close>. The fraction is a \<^verbatim>\<open>float64\<close> in the source; here it is a
  rational number and its product with the node count is exact.
\<close>

record Settings =
  MinNodes :: int
  MaxNodesDelete :: int
  FractionNodesToDelete :: rat
  NodeLabelSelector :: string
  DealBreakerPodLabels :: string
  EvictionTimeout :: duration
  GracefulTermination :: duration
  EvictDeletionTimeout :: duration
  DelayAfterCordon :: duration

text \<open>\<^verbatim>\<open>assertConfigValid\<close> of the command: \<open>None\<close> is the nil error.\<close>

definition assertConfigValid :: "Settings \<Rightarrow> error option" where
  "assertConfigValid cfg =
     (let configInvalid = False;
          configInvalid = (if MinNodes cfg \<le> 0 then True else configInvalid);
          configInvalid = (if FractionNodesToDelete cfg < 0 \<or> FractionNodesToDelete cfg \<ge> 1
                           then True else configInvalid)
      in if configInvalid then Some (New ''configuration is invalid'') else None)"

text \<open>
  The cluster gateway \<^verbatim>\<open>NodeInterface\<close>: every method takes the state of the world
  \<open>'w\<close> and returns its answer with the new state.
\<close>

record 'w NodeInterface =
  ListNodes :: "string \<Rightarrow> 'w \<Rightarrow> (error + Node list) \<times> 'w"
  HasDealBreakerPods :: "string \<Rightarrow> 'w \<Rightarrow> (error + bool) \<times> 'w"
  CordonNode :: "string \<Rightarrow> 'w \<Rightarrow> error option \<times> 'w"
  MarkNodeToDrain :: "string \<Rightarrow> 'w \<Rightarrow> error option \<times> 'w"
  DrainNode :: "string \<Rightarrow> 'w \<Rightarrow> error option \<times> 'w"

text \<open>The clock: \<^verbatim>\<open>time.Now\<close> reads the world, \<^verbatim>\<open>time.Sleep\<close> changes it.\<close>

record 'w Clock =
  timeNow :: "'w \<Rightarrow> time"
  timeSleep :: "duration \<Rightarrow> 'w \<Rightarrow> 'w"

record 'w theGrimReaper =
  config :: Settings
  nodeClient :: "'w NodeInterface"

section \<open>Node selection: \<^verbatim>\<open>GetNodesToReap\<close>\<close>

text \<open>Conversion of a float to \<^verbatim>\<open>int\<close> truncates toward zero.\<close>

definition truncToInt :: "rat \<Rightarrow> int" where
  "truncToInt x = (if 0 \<le> x then \<lfloor>x\<rfloor> else \<lceil>x\<rceil>)"

text \<open>
  The two clamps of the count computed from the fraction (lines 46 to 51); there is no
  third step for a count that is zero or negative.
\<close>

definition clampNodesToReap :: "Settings \<Rightarrow> int \<Rightarrow> int \<Rightarrow> int" where
  "clampNodesToReap cfg numNodes nodesToReap0 =
     (let nodesToReap = (if numNodes - nodesToReap0 < MinNodes cfg
                         then numNodes - MinNodes cfg else nodesToReap0);
          nodesToReap = (if nodesToReap > MaxNodesDelete cfg
                         then MaxNodesDelete cfg else nodesToReap)
      in nodesToReap)"

definition nodesToReapCount :: "Settings \<Rightarrow> int \<Rightarrow> int" where
  "nodesToReapCount cfg numNodes =
     clampNodesToReap cfg numNodes
       (truncToInt (FractionNodesToDelete cfg * of_int numNodes))"

text \<open>
  The innermost loop (lines 62 to 67): is the name among the considered ones.
\<close>

definition isConsidered :: "string list \<Rightarrow> string \<Rightarrow> bool" where
  "isConsidered consideredNodes name =
     foldl (\<lambda>considered c. if name = c then True else considered) False consideredNodes"

text \<open>
  The scan for the oldest node (lines 59 to 73), from index \<open>i\<close> on; the state is
  \<open>(oldestCreateDate, lowestIndex)\<close>.
\<close>

fun scanOldest :: "string list \<Rightarrow> Node list \<Rightarrow> nat \<Rightarrow> time \<times> int \<Rightarrow> time \<times> int" where
  "scanOldest consideredNodes [] i st = st"
| "scanOldest consideredNodes (n # ns) i (oldestCreateDate, lowestIndex) =
     (if CreationTimestamp n < oldestCreateDate
      then (if \<not> isConsidered consideredNodes (Name n)
            then scanOldest consideredNodes ns (Suc i) (CreationTimestamp n, int i)
            else scanOldest consideredNodes ns (Suc i) (oldestCreateDate, lowestIndex))
      else scanOldest consideredNodes ns (Suc i) (oldestCreateDate, lowestIndex))"

definition findOldest :: "time \<Rightarrow> string list \<Rightarrow> Node list \<Rightarrow> int" where
  "findOldest now consideredNodes items = snd (scanOldest consideredNodes items 0 (now, - 1))"

text \<open>The variadic \<^verbatim>\<open>append(s, vs...)\<close>.\<close>

definition append :: "'a list \<Rightarrow> 'a list \<Rightarrow> 'a list" where
  "append s vs = s @ vs"

text \<open>
  The outer loop (lines 55 to 93) with \<open>k\<close> iterations left. Line 77 calls
  \<^verbatim>\<open>append(consideredNodes)\<close> with no element to add.
\<close>

fun reapLoop ::
  "'w Clock \<Rightarrow> 'w NodeInterface \<Rightarrow> Node list \<Rightarrow> int \<Rightarrow> nat \<Rightarrow>
   string list \<Rightarrow> string list \<Rightarrow> string list \<Rightarrow> 'w \<Rightarrow>
   (fault + string list \<times> string list) \<times> 'w" where
  "reapLoop clk nc items nodesToReap 0 consideredNodes reap passover w =
     (Inr (reap, passover), w)"
| "reapLoop clk nc items nodesToReap (Suc k) consideredNodes reap passover w =
     (let lowestIndex = findOldest (timeNow clk w) consideredNodes items
      in if lowestIndex < 0 \<or> int (length items) \<le> lowestIndex
         then (Inl (Panic ''index out of range''), w)
         else
           (let node = items ! nat lowestIndex;
                consideredNodes = append consideredNodes []
            in case HasDealBreakerPods nc (Name node) w of
                 (Inl err, w') \<Rightarrow> (Inl (Err err), w')
               | (Inr dealBreak, w') \<Rightarrow>
                   (let passover' = (if dealBreak then append passover [Name node] else passover);
                        reap' = (if dealBreak then reap else append reap [Name node])
                    in if int (length reap') = nodesToReap
                       then (Inr (reap', passover'), w')
                       else reapLoop clk nc items nodesToReap k consideredNodes
                              reap' passover' w')))"

definition GetNodesToReap ::
  "'w Clock \<Rightarrow> 'w theGrimReaper \<Rightarrow> 'w \<Rightarrow> (fault + string list \<times> string list) \<times> 'w" where
  "GetNodesToReap clk m w =
     (case ListNodes (nodeClient m) (NodeLabelSelector (config m)) w of
        (Inl err, w') \<Rightarrow> (Inl (Err err), w')
      | (Inr allNodes, w') \<Rightarrow>
          (let numNodes = int (length allNodes);
               nodesToReap = nodesToReapCount (config m) numNodes
           in reapLoop clk (nodeClient m) allNodes nodesToReap (length allNodes)
                [] [] [] w'))"

section \<open>Marking, harvest and the run: \<^verbatim>\<open>MarkNodesForDestruction\<close>, \<^verbatim>\<open>Harvest\<close>, \<^verbatim>\<open>runGrimReaper\<close>\<close>

definition NewGrimReaper :: "Settings \<Rightarrow> 'w NodeInterface \<Rightarrow> 'w theGrimReaper" where
  "NewGrimReaper cfg nc = \<lparr>config = cfg, nodeClient = nc\<rparr>"

fun MarkNodesForDestruction ::
  "'w theGrimReaper \<Rightarrow> string list \<Rightarrow> 'w \<Rightarrow> error option \<times> 'w" where
  "MarkNodesForDestruction m [] w = (None, w)"
| "MarkNodesForDestruction m (n # nodes) w =
     (case MarkNodeToDrain (nodeClient m) n w of
        (Some err, w') \<Rightarrow> (Some err, w')
      | (None, w') \<Rightarrow> MarkNodesForDestruction m nodes w')"

definition Harvest ::
  "'w Clock \<Rightarrow> 'w theGrimReaper \<Rightarrow> string \<Rightarrow> 'w \<Rightarrow> error option \<times> 'w" where
  "Harvest clk m nodeName w =
     (case CordonNode (nodeClient m) nodeName w of
        (Some err, w1) \<Rightarrow> (Some err, w1)
      | (None, w1) \<Rightarrow>
          (let w2 = timeSleep clk (DelayAfterCordon (config m)) w1
           in case DrainNode (nodeClient m) nodeName w2 of
                (Some err, w3) \<Rightarrow> (Some err, w3)
              | (None, w3) \<Rightarrow> (None, w3)))"

text \<open>The loop over \<open>reap\<close> in \<^verbatim>\<open>runGrimReaper\<close> (lines 161 to 168).\<close>

fun harvestLoop ::
  "'w Clock \<Rightarrow> 'w theGrimReaper \<Rightarrow> string list \<Rightarrow> 'w \<Rightarrow> error option \<times> 'w" where
  "harvestLoop clk reaper [] w = (None, w)"
| "harvestLoop clk reaper (n # reap) w =
     (case Harvest clk reaper n w of
        (Some err, w') \<Rightarrow> (Some err, w')
      | (None, w') \<Rightarrow> harvestLoop clk reaper reap w')"

text \<open>
  \<^verbatim>\<open>runGrimReaper\<close>; the node client that the source builds from the cluster client
  set is a parameter here.
\<close>

definition runGrimReaper ::
  "'w Clock \<Rightarrow> Settings \<Rightarrow> 'w NodeInterface \<Rightarrow> 'w \<Rightarrow> fault option \<times> 'w" where
  "runGrimReaper clk cfg nc w =
     (let reaper = NewGrimReaper cfg nc
      in case GetNodesToReap clk reaper w of
           (Inl f, w1) \<Rightarrow> (Some f, w1)
         | (Inr (reap, passover), w1) \<Rightarrow>
             (case MarkNodesForDestruction reaper reap w1 of
                (Some err, w2) \<Rightarrow> (Some (Err err), w2)
              | (None, w2) \<Rightarrow>
                  (case harvestLoop clk reaper reap w2 of
                     (Some err, w3) \<Rightarrow> (Some (Err err), w3)
                   | (None, w3) \<Rightarrow> (None, w3))))"

section \<open>Pods: the eviction guard and the eviction executor\<close>

record OwnerReference =
  Kind :: string
  OwnerName :: string
  Controller :: bool

record Pod =
  PodName :: string
  Namespace :: string
  OwnerReferences :: "OwnerReference list"
  TerminationGracePeriodSeconds :: "int option"

record Eviction =
  EvictionNamespace :: string
  EvictionName :: string
  GracePeriodSeconds :: int

text \<open>The calls of the cluster client that the pod evictor and the drain make.\<close>

record 'w PodClient =
  GetDaemonSet :: "string \<Rightarrow> string \<Rightarrow> 'w \<Rightarrow> error option \<times> 'w"
  Evict :: "Eviction \<Rightarrow> 'w \<Rightarrow> error option \<times> 'w"
  ListPods :: "string \<Rightarrow> 'w \<Rightarrow> (error + Pod list) \<times> 'w"

record 'w kubernetesPodEvictor =
  dryRun :: bool
  client :: "'w PodClient"
  evictorSettings :: Settings

text \<open>\<^verbatim>\<open>metav1.GetControllerOf\<close>: the first owner reference that is a controller.\<close>

definition GetControllerOf :: "Pod \<Rightarrow> OwnerReference option" where
  "GetControllerOf pod = find Controller (OwnerReferences pod)"

definition getPodDaemonSet :: "Pod \<Rightarrow> bool \<times> string" where
  "getPodDaemonSet pod =
     (case GetControllerOf pod of
        Some c \<Rightarrow> (if Kind c = ''DaemonSet'' then (True, OwnerName c) else (False, []))
      | None \<Rightarrow> (False, []))"

definition daemonsetExists ::
  "'w kubernetesPodEvictor \<Rightarrow> string \<Rightarrow> string \<Rightarrow> 'w \<Rightarrow> (bool \<times> error option) \<times> 'w" where
  "daemonsetExists m namespace name w =
     (case GetDaemonSet (client m) namespace name w of
        (Some err, w') \<Rightarrow>
          (if IsNotFound err then ((False, None), w') else ((True, Some err), w'))
      | (None, w') \<Rightarrow> ((True, None), w'))"

text \<open>
  \<^verbatim>\<open>shouldEvict\<close> returns a \<^verbatim>\<open>bool\<close> and nothing else. Its body ends after the
  DaemonSet check, at the comment about stateful sets, with no return statement: on
  that path the source gives no value, which is \<open>None\<close> here.
\<close>

definition shouldEvict ::
  "'w kubernetesPodEvictor \<Rightarrow> Pod \<Rightarrow> 'w \<Rightarrow> bool option \<times> 'w" where
  "shouldEvict m pod w =
     (case getPodDaemonSet pod of
        (isDS, daemonSetName) \<Rightarrow>
          (if isDS
           then (case daemonsetExists m (Namespace pod) daemonSetName w of
                   ((exists, err), w') \<Rightarrow>
                     (if exists \<or> err \<noteq> None then (Some False, w') else (None, w')))
           else (None, w)))"

text \<open>The filter loop of \<^verbatim>\<open>listPodsToEvict\<close> (lines 81 to 86).\<close>

fun filterPodsToEvict ::
  "'w kubernetesPodEvictor \<Rightarrow> Pod list \<Rightarrow> Pod list \<Rightarrow> 'w \<Rightarrow> Pod list option \<times> 'w" where
  "filterPodsToEvict ev [] evictPods w = (Some evictPods, w)"
| "filterPodsToEvict ev (pod # pods) evictPods w =
     (case shouldEvict ev pod w of
        (None, w') \<Rightarrow> (None, w')
      | (Some b, w') \<Rightarrow>
          filterPodsToEvict ev pods (if b then append evictPods [pod] else evictPods) w')"

definition listPodsToEvict ::
  "'w kubernetesPodEvictor \<Rightarrow> string \<Rightarrow> 'w \<Rightarrow> (error + Pod list) option \<times> 'w" where
  "listPodsToEvict ev nodeName w =
     (case ListPods (client ev) nodeName w of
        (Inl err, w') \<Rightarrow> (Some (Inl err), w')
      | (Inr pods, w') \<Rightarrow>
          (case filterPodsToEvict ev pods [] w' of
             (None, w'') \<Rightarrow> (None, w'')
           | (Some evictPods, w'') \<Rightarrow> (Some (Inr evictPods), w'')))"

text \<open>
  \<^verbatim>\<open>Duration.Seconds\<close> converted to \<^verbatim>\<open>int64\<close>: the whole seconds, truncated toward
  zero.
\<close>

definition Second :: duration where
  "Second = 1000000000"

definition wholeSeconds :: "duration \<Rightarrow> int" where
  "wholeSeconds d = (if 0 \<le> d then d div Second else - ((- d) div Second))"

definition terminationGracePeriodOf :: "'w kubernetesPodEvictor \<Rightarrow> Pod \<Rightarrow> int" where
  "terminationGracePeriodOf m pod =
     (let terminationGracePeriod = wholeSeconds (GracefulTermination (evictorSettings m))
      in case TerminationGracePeriodSeconds pod of
           Some p \<Rightarrow> (if p < terminationGracePeriod then p else terminationGracePeriod)
         | None \<Rightarrow> terminationGracePeriod)"

definition evictOptionsOf :: "'w kubernetesPodEvictor \<Rightarrow> Pod \<Rightarrow> Eviction" where
  "evictOptionsOf m pod =
     \<lparr>EvictionNamespace = Namespace pod, EvictionName = PodName pod,
      GracePeriodSeconds = terminationGracePeriodOf m pod\<rparr>"

definition unclearMessage :: "Pod \<Rightarrow> string" where
  "unclearMessage pod =
     ''unable to tell if pod '' @ PodName pod @ '' in namespace '' @ Namespace pod
       @ '' was evicted''"

definition evictFailedMessage :: "Pod \<Rightarrow> string" where
  "evictFailedMessage pod =
     ''error evicting pod '' @ PodName pod @ '' from namespace '' @ Namespace pod"

text \<open>
  The loop of \<^verbatim>\<open>evict\<close> (lines 193 to 229). \<open>abort w\<close> says whether the abort channel
  is closed in the world \<open>w\<close>. The loop has no bound: a run that never returns is
  \<open>None\<close>.
\<close>

partial_function (option) evictLoop ::
  "'w Clock \<Rightarrow> 'w kubernetesPodEvictor \<Rightarrow> Pod \<Rightarrow> ('w \<Rightarrow> bool) \<Rightarrow> 'w \<Rightarrow>
   (error option \<times> 'w) option" where
  "evictLoop clk m pod abort w =
     (if abort w then Some (Some (New ''pod eviction aborted''), w)
      else (case Evict (client m) (evictOptionsOf m pod) w of
              (None, w') \<Rightarrow> Some (Some (New (unclearMessage pod)), w')
            | (Some err, w') \<Rightarrow>
                (if IsNotFound err then Some (None, w')
                 else if \<not> IsTooManyRequests err
                 then Some (Some (Wrap err (evictFailedMessage pod)), w')
                 else evictLoop clk m pod abort (timeSleep clk (5 * Second) w'))))"

definition evict ::
  "'w Clock \<Rightarrow> 'w kubernetesPodEvictor \<Rightarrow> Pod \<Rightarrow> ('w \<Rightarrow> bool) \<Rightarrow> 'w \<Rightarrow>
   (error option \<times> 'w) option" where
  "evict clk m pod abort w = evictLoop clk m pod abort w"

section \<open>A scripted gateway\<close>

text \<open>
  A gateway for concrete runs. Its world holds the clock, the answers that the coming
  deal-breaker queries will get (once they are used up the answer is \<open>false\<close>), and the
  log of every call made, in order.
\<close>

datatype call =
  CallListNodes string
| CallHasDealBreakerPods string
| CallCordonNode string
| CallMarkNodeToDrain string
| CallDrainNode string
| CallSleep duration

record world =
  wnow :: time
  answers :: "(error + bool) list"
  calls :: "call list"

definition logCall :: "call \<Rightarrow> world \<Rightarrow> world" where
  "logCall c w = w\<lparr>calls := calls w @ [c]\<rparr>"

definition scriptedClient ::
  "(error + Node list) \<Rightarrow> (string \<Rightarrow> error option) \<Rightarrow> (string \<Rightarrow> error option) \<Rightarrow>
   (string \<Rightarrow> error option) \<Rightarrow> world NodeInterface" where
  "scriptedClient listing markErr cordonErr drainErr =
     \<lparr>ListNodes = (\<lambda>sel w. (listing, logCall (CallListNodes sel) w)),
      HasDealBreakerPods = (\<lambda>name w.
        case answers w of
          [] \<Rightarrow> (Inr False, logCall (CallHasDealBreakerPods name) w)
        | a # as \<Rightarrow> (a, logCall (CallHasDealBreakerPods name) (w\<lparr>answers := as\<rparr>))),
      CordonNode = (\<lambda>name w. (cordonErr name, logCall (CallCordonNode name) w)),
      MarkNodeToDrain = (\<lambda>name w. (markErr name, logCall (CallMarkNodeToDrain name) w)),
      DrainNode = (\<lambda>name w. (drainErr name, logCall (CallDrainNode name) w))\<rparr>"

definition scriptedClock :: "world Clock" where
  "scriptedClock =
     \<lparr>timeNow = wnow,
      timeSleep = (\<lambda>d w. logCall (CallSleep d) (w\<lparr>wnow := wnow w + d\<rparr>))\<rparr>"

definition noError :: "string \<Rightarrow> error option" where
  "noError name = None"

definition node :: "string \<Rightarrow> time \<Rightarrow> Node" where
  "node name created = \<lparr>Name = name, CreationTimestamp = created\<rparr>"

definition settings :: "int \<Rightarrow> int \<Rightarrow> rat \<Rightarrow> Settings" where
  "settings minNodes maxNodesDelete fraction =
     \<lparr>MinNodes = minNodes, MaxNodesDelete = maxNodesDelete,
      FractionNodesToDelete = fraction, NodeLabelSelector = [],
      DealBreakerPodLabels = [], EvictionTimeout = 300000000000,
      GracefulTermination = 60000000000, EvictDeletionTimeout = 300000000000,
      DelayAfterCordon = 60000000000\<rparr>"

definition startWorld :: "time \<Rightarrow> (error + bool) list \<Rightarrow> world" where
  "startWorld t as = \<lparr>wnow = t, answers = as, calls = []\<rparr>"

text \<open>
  A pod client for concrete runs. Its world holds the clock, the responses that the
  coming eviction requests will get (once they are used up the gateway throttles),
  and the log of the eviction requests and of the DaemonSet lookups.
\<close>

record podWorld =
  pnow :: time
  responses :: "error option list"
  requests :: "Eviction list"
  lookups :: "(string \<times> string) list"

definition throttled :: error where
  "throttled = StatusError StatusReasonTooManyRequests 429"

definition notFound :: error where
  "notFound = StatusError StatusReasonNotFound 404"

definition serverError :: error where
  "serverError = StatusError (StatusReasonOther ''InternalError'') 500"

definition scriptedPodClient ::
  "(string \<Rightarrow> string \<Rightarrow> error option) \<Rightarrow> (error + Pod list) \<Rightarrow> podWorld PodClient" where
  "scriptedPodClient daemonSets listing =
     \<lparr>GetDaemonSet = (\<lambda>namespace name w.
        (daemonSets namespace name, w\<lparr>lookups := lookups w @ [(namespace, name)]\<rparr>)),
      Evict = (\<lambda>ev w.
        case responses w of
          [] \<Rightarrow> (Some throttled, w\<lparr>requests := requests w @ [ev]\<rparr>)
        | r # rs \<Rightarrow> (r, w\<lparr>responses := rs, requests := requests w @ [ev]\<rparr>)),
      ListPods = (\<lambda>nodeName w. (listing, w))\<rparr>"

definition podClock :: "podWorld Clock" where
  "podClock = \<lparr>timeNow = pnow, timeSleep = (\<lambda>d w. w\<lparr>pnow := pnow w + d\<rparr>)\<rparr>"

text \<open>The abort channel is closed from the instant \<open>deadline\<close> on.\<close>

definition abortAt :: "time \<Rightarrow> podWorld \<Rightarrow> bool" where
  "abortAt deadline w = (deadline \<le> pnow w)"

definition podEvictor ::
  "(string \<Rightarrow> string \<Rightarrow> error option) \<Rightarrow> (error + Pod list) \<Rightarrow>
   podWorld kubernetesPodEvictor" where
  "podEvictor daemonSets listing =
     \<lparr>dryRun = False, client = scriptedPodClient daemonSets listing,
      evictorSettings = settings 3 2 (1 / 2)\<rparr>"

definition plainPod :: "string \<Rightarrow> Pod" where
  "plainPod name =
     \<lparr>PodName = name, Namespace = ''default'', OwnerReferences = [],
      TerminationGracePeriodSeconds = Some 30\<rparr>"

definition daemonPod :: "string \<Rightarrow> string \<Rightarrow> Pod" where
  "daemonPod name owner =
     \<lparr>PodName = name, Namespace = ''kube-system'',
      OwnerReferences = [\<lparr>Kind = ''DaemonSet'', OwnerName = owner, Controller = True\<rparr>],
      TerminationGracePeriodSeconds = None\<rparr>"

definition podStart :: "time \<Rightarrow> error option list \<Rightarrow> podWorld" where
  "podStart t rs = \<lparr>pnow = t, responses = rs, requests = [], lookups = []\<rparr>"

section \<open>What a run of marks leaves behind\<close>

text \<open>
  The world after \<^verbatim>\<open>MarkNodeToDrain\<close> has been called on each of the given names in
  order, and the result of the call number \<open>i\<close> of such a run.
\<close>

definition worldAfterMarks :: "'w theGrimReaper \<Rightarrow> string list \<Rightarrow> 'w \<Rightarrow> 'w" where
  "worldAfterMarks m nodes w =
     foldl (\<lambda>w' n. snd (MarkNodeToDrain (nodeClient m) n w')) w nodes"

definition markResultAt :: "'w theGrimReaper \<Rightarrow> string list \<Rightarrow> 'w \<Rightarrow> nat \<Rightarrow> error option" where
  "markResultAt m nodes w i =
     fst (MarkNodeToDrain (nodeClient m) (nodes ! i) (worldAfterMarks m (take i nodes) w))"

section \<open>More inputs for concrete runs\<close>

text \<open>A gateway call that fails on one name and succeeds on every other.\<close>

definition failsOn :: "string \<Rightarrow> string \<Rightarrow> error option" where
  "failsOn bad name = (if name = bad then Some (New ''failed'') else None)"

text \<open>The eviction request for a pod of \<open>plainPod\<close> under \<open>podEvictor\<close>.\<close>

definition evictionOf :: "string \<Rightarrow> Eviction" where
  "evictionOf name =
     \<lparr>EvictionNamespace = ''default'', EvictionName = name, GracePeriodSeconds = 30\<rparr>"

section \<open>Unfolding rules for concrete runs\<close>

lemmas scripted_defs =
  scriptedClient_def scriptedClock_def settings_def node_def startWorld_def logCall_def
  noError_def

lemmas selection_defs =
  GetNodesToReap_def nodesToReapCount_def clampNodesToReap_def truncToInt_def
  findOldest_def isConsidered_def append_def

lemmas pod_defs =
  podEvictor_def scriptedPodClient_def podClock_def podStart_def daemonPod_def plainPod_def
  throttled_def notFound_def serverError_def abortAt_def

lemmas evict_defs =
  evictOptionsOf_def terminationGracePeriodOf_def wholeSeconds_def Second_def settings_def
  unclearMessage_def evictFailedMessage_def

section \<open>The count of nodes to reap\<close>

lemma clampNodesToReap_upper: "clampNodesToReap cfg numNodes t0 \<le> MaxNodesDelete cfg"
  by (simp add: clampNodesToReap_def Let_def)

lemma clampNodesToReap_keeps_min: "MinNodes cfg \<le> numNodes - clampNodesToReap cfg numNodes t0"
  by (simp add: clampNodesToReap_def Let_def)

lemma clampNodesToReap_nonneg:
  "0 \<le> t0 \<Longrightarrow> MinNodes cfg \<le> numNodes \<Longrightarrow> 0 \<le> MaxNodesDelete cfg \<Longrightarrow>
   0 \<le> clampNodesToReap cfg numNodes t0"
  by (simp add: clampNodesToReap_def Let_def)

lemma truncToInt_nonneg: "0 \<le> x \<Longrightarrow> 0 \<le> truncToInt x"
  by (simp add: truncToInt_def)

lemma assertConfigValid_None:
  "assertConfigValid cfg = None \<longleftrightarrow>
     0 < MinNodes cfg \<and> 0 \<le> FractionNodesToDelete cfg \<and> FractionNodesToDelete cfg < 1"
  by (auto simp add: assertConfigValid_def Let_def)

text \<open>
  C3, as stated, fails: with two nodes and \<open>minNodes = 3\<close> (settings that
  \<^verbatim>\<open>assertConfigValid\<close> accepts) the first clamp sets the count to \<open>2 - 3 = -1\<close>, and
  nothing raises it to zero afterwards.
\<close>

theorem nodesToReapCount_negative:
  "assertConfigValid (settings 3 2 0) = None \<and>
   nodesToReapCount (settings 3 2 0) 2 = - 1 \<and>
   \<not> (0 \<le> nodesToReapCount (settings 3 2 0) 2 \<and>
      nodesToReapCount (settings 3 2 0) 2 \<le> MaxNodesDelete (settings 3 2 0) \<and>
      MinNodes (settings 3 2 0) \<le> 2 - nodesToReapCount (settings 3 2 0) 2)"
  by (simp add: assertConfigValid_def nodesToReapCount_def clampNodesToReap_def
      truncToInt_def settings_def)

text \<open>
  C3, amended: for every node count \<open>n \<ge> 0\<close> and all valid settings the count is at
  most \<open>maxNodesDelete\<close> and leaves at least \<open>minNodes\<close> nodes; it is non-negative
  when the cluster has at least \<open>minNodes\<close> nodes and \<open>maxNodesDelete\<close> is not
  negative.
\<close>

theorem nodesToReapCount_bounds:
  assumes "assertConfigValid cfg = None" and "0 \<le> numNodes"
  shows "nodesToReapCount cfg numNodes \<le> MaxNodesDelete cfg \<and>
         MinNodes cfg \<le> numNodes - nodesToReapCount cfg numNodes \<and>
         (MinNodes cfg \<le> numNodes \<and> 0 \<le> MaxNodesDelete cfg \<longrightarrow>
            0 \<le> nodesToReapCount cfg numNodes)"
proof -
  from assms(1) have "0 \<le> FractionNodesToDelete cfg"
    by (simp add: assertConfigValid_None)
  with assms(2) have "0 \<le> FractionNodesToDelete cfg * of_int numNodes"
    by simp
  then have t0: "0 \<le> truncToInt (FractionNodesToDelete cfg * of_int numNodes)"
    by (rule truncToInt_nonneg)
  show ?thesis
    unfolding nodesToReapCount_def
    using clampNodesToReap_upper clampNodesToReap_keeps_min clampNodesToReap_nonneg [OF t0]
    by blast
qed

text \<open>
  C3, witness: scenario A of the specification, 20 nodes, fraction 0.1, \<open>minNodes = 18\<close>,
  \<open>maxNodesDelete = 5\<close>, where the count is 2.
\<close>

theorem nodesToReapCount_bounds_witness:
  "assertConfigValid (settings 18 5 (1 / 10)) = None \<and> (0::int) \<le> 20 \<and>
   nodesToReapCount (settings 18 5 (1 / 10)) 20 = 2 \<and>
   nodesToReapCount (settings 18 5 (1 / 10)) 20 \<le> MaxNodesDelete (settings 18 5 (1 / 10)) \<and>
   MinNodes (settings 18 5 (1 / 10)) \<le> 20 - nodesToReapCount (settings 18 5 (1 / 10)) 20 \<and>
   0 \<le> nodesToReapCount (settings 18 5 (1 / 10)) 20"
proof -
  have v: "assertConfigValid (settings 18 5 (1 / 10)) = None"
    by (simp add: assertConfigValid_def settings_def)
  have n: "(0::int) \<le> 20" by simp
  have e: "nodesToReapCount (settings 18 5 (1 / 10)) 20 = 2"
    by (simp add: nodesToReapCount_def clampNodesToReap_def truncToInt_def settings_def)
  show ?thesis
    using nodesToReapCount_bounds [OF v n] v e by (simp add: settings_def)
qed

section \<open>The scan for the oldest node\<close>

lemma isConsidered_Nil: "isConsidered [] name = False"
  by (simp add: isConsidered_def)

lemma scanOldest_index:
  "snd (scanOldest [] items i (oldest, lowest)) = lowest \<or>
   (int i \<le> snd (scanOldest [] items i (oldest, lowest)) \<and>
    snd (scanOldest [] items i (oldest, lowest)) < int i + int (length items))"
proof (induction items arbitrary: i oldest lowest)
  case Nil
  then show ?case by simp
next
  case (Cons n ns)
  show ?case
  proof (cases "CreationTimestamp n < oldest")
    case True
    with Cons.IH [of "Suc i" "CreationTimestamp n" "int i"] show ?thesis
      by (auto simp add: isConsidered_Nil)
  next
    case False
    with Cons.IH [of "Suc i" oldest lowest] show ?thesis
      by auto
  qed
qed

lemma scanOldest_finds:
  "\<exists>n \<in> set items. CreationTimestamp n < oldest \<Longrightarrow>
   int i \<le> snd (scanOldest [] items i (oldest, lowest)) \<and>
   snd (scanOldest [] items i (oldest, lowest)) < int i + int (length items)"
proof (induction items arbitrary: i oldest lowest)
  case Nil
  then show ?case by simp
next
  case (Cons n ns)
  show ?case
  proof (cases "CreationTimestamp n < oldest")
    case True
    with scanOldest_index [of ns "Suc i" "CreationTimestamp n" "int i"] show ?thesis
      by (auto simp add: isConsidered_Nil)
  next
    case False
    with Cons.prems have "\<exists>n \<in> set ns. CreationTimestamp n < oldest" by auto
    from Cons.IH [OF this, of "Suc i" lowest] False show ?thesis
      by auto
  qed
qed

lemma findOldest_in_range:
  "\<exists>n \<in> set items. CreationTimestamp n < now \<Longrightarrow>
   0 \<le> findOldest now [] items \<and> findOldest now [] items < int (length items)"
  using scanOldest_finds [of items now 0 "- 1"] by (simp add: findOldest_def)

text \<open>
  The list of considered names stays empty through the loop, so every scan of a run is
  a scan with no name excluded; with a clock that does not go back over a query, a node
  older than the first reading of the clock is older than every later one.
\<close>

lemma reapLoop_no_panic:
  assumes mono: "\<forall>name w'. timeNow clk w' \<le> timeNow clk (snd (HasDealBreakerPods nc name w'))"
    and old: "n \<in> set items"
  shows "CreationTimestamp n < timeNow clk w \<Longrightarrow>
         fst (reapLoop clk nc items target k [] reap passover w) \<noteq> Inl (Panic msg)"
proof (induction k arbitrary: reap passover w)
  case 0
  then show ?case by simp
next
  case (Suc k)
  from old Suc.prems have ex: "\<exists>n \<in> set items. CreationTimestamp n < timeNow clk w"
    by blast
  note rng = findOldest_in_range [OF ex]
  obtain r w' where
    q: "HasDealBreakerPods nc (Name (items ! nat (findOldest (timeNow clk w) [] items))) w
          = (r, w')"
    by (cases "HasDealBreakerPods nc
                 (Name (items ! nat (findOldest (timeNow clk w) [] items))) w")
  from mono q have "timeNow clk w \<le> timeNow clk w'"
    by (metis snd_conv)
  with Suc.prems have later: "CreationTimestamp n < timeNow clk w'" by simp
  show ?case
  proof (cases r)
    case (Inl e)
    with rng q show ?thesis by (simp add: Let_def append_def)
  next
    case (Inr dealBreak)
    with rng q Suc.IH [OF later] show ?thesis
      by (simp add: Let_def append_def)
  qed
qed

text \<open>
  A run panics only in a world whose clock reading no listed node is older than.
\<close>

lemma reapLoop_panic_world:
  "reapLoop clk nc items target k [] reap passover w = (Inl (Panic msg), w') \<Longrightarrow>
   \<forall>n \<in> set items. \<not> CreationTimestamp n < timeNow clk w'"
proof (induction k arbitrary: reap passover w)
  case 0
  then show ?case by simp
next
  case (Suc k)
  let ?i = "findOldest (timeNow clk w) [] items"
  show ?case
  proof (cases "?i < 0 \<or> int (length items) \<le> ?i")
    case True
    with Suc.prems have "w' = w" by (simp add: Let_def)
    have "\<not> (\<exists>n \<in> set items. CreationTimestamp n < timeNow clk w)"
    proof
      assume "\<exists>n \<in> set items. CreationTimestamp n < timeNow clk w"
      from findOldest_in_range [OF this] True show False by linarith
    qed
    with \<open>w' = w\<close> show ?thesis by blast
  next
    case False
    obtain r v where q: "HasDealBreakerPods nc (Name (items ! nat ?i)) w = (r, v)"
      by (cases "HasDealBreakerPods nc (Name (items ! nat ?i)) w")
    show ?thesis
    proof (cases r)
      case (Inl e)
      with False q Suc.prems show ?thesis by (simp add: Let_def append_def)
    next
      case (Inr dealBreak)
      with False q Suc.prems Suc.IH show ?thesis
        by (simp add: Let_def append_def split: if_splits)
    qed
  qed
qed

text \<open>
  C9: when some node of the list was created strictly before the clock reading of a
  scan, the index that the scan chooses lies within the list (it is not \<open>-1\<close>), and no
  run of \<^verbatim>\<open>GetNodesToReap\<close> over this list panics at the access
  \<^verbatim>\<open>allNodes.Items[lowestIndex]\<close> that follows a scan made in this world.
\<close>

theorem lowestIndex_in_bounds:
  assumes "n \<in> set items" and "CreationTimestamp n < timeNow clk w'"
  shows "0 \<le> findOldest (timeNow clk w') [] items \<and>
         findOldest (timeNow clk w') [] items < int (length items) \<and>
         (\<forall>m w w1 msg.
            ListNodes (nodeClient m) (NodeLabelSelector (config m)) w = (Inr items, w1) \<longrightarrow>
            GetNodesToReap clk m w \<noteq> (Inl (Panic msg), w'))"
proof -
  from assms have ex: "\<exists>n \<in> set items. CreationTimestamp n < timeNow clk w'" by blast
  then have a: "0 \<le> findOldest (timeNow clk w') [] items \<and>
         findOldest (timeNow clk w') [] items < int (length items)"
    by (rule findOldest_in_range)
  have b: "GetNodesToReap clk m w \<noteq> (Inl (Panic msg), w')"
    if l: "ListNodes (nodeClient m) (NodeLabelSelector (config m)) w = (Inr items, w1)"
    for m w w1 msg
  proof
    assume "GetNodesToReap clk m w = (Inl (Panic msg), w')"
    with l have "reapLoop clk (nodeClient m) items
        (nodesToReapCount (config m) (int (length items))) (length items) [] [] [] w1
        = (Inl (Panic msg), w')"
      by (simp add: GetNodesToReap_def Let_def)
    from reapLoop_panic_world [OF this] ex show False by blast
  qed
  from a b show ?thesis by blast
qed

text \<open>
  C9, witness: two nodes created at the instants 1 and 2, the clock at 100; the scan
  chooses index 0.
\<close>

theorem lowestIndex_in_bounds_witness:
  "node ''a'' 1 \<in> set [node ''a'' 1, node ''b'' 2] \<and>
   CreationTimestamp (node ''a'' 1)
     < timeNow scriptedClock (logCall (CallListNodes []) (startWorld 100 [])) \<and>
   findOldest (timeNow scriptedClock (logCall (CallListNodes []) (startWorld 100 []))) []
     [node ''a'' 1, node ''b'' 2] = 0 \<and>
   GetNodesToReap scriptedClock
     \<lparr>config = settings 1 5 (1 / 2),
      nodeClient = scriptedClient (Inr [node ''a'' 1, node ''b'' 2])
                     noError noError noError\<rparr>
     (startWorld 100 [])
   \<noteq> (Inl (Panic ''index out of range''), logCall (CallListNodes []) (startWorld 100 []))"
proof -
  let ?items = "[node ''a'' 1, node ''b'' 2]"
  let ?m = "\<lparr>config = settings 1 5 (1 / 2),
            nodeClient = scriptedClient (Inr ?items) noError noError noError\<rparr>"
  let ?w1 = "logCall (CallListNodes []) (startWorld 100 [])"
  have i: "node ''a'' 1 \<in> set ?items" by simp
  have t: "CreationTimestamp (node ''a'' 1) < timeNow scriptedClock ?w1"
    by (simp add: scripted_defs)
  have l: "ListNodes (nodeClient ?m) (NodeLabelSelector (config ?m)) (startWorld 100 [])
             = (Inr ?items, ?w1)"
    by (simp add: scripted_defs)
  have f: "findOldest (timeNow scriptedClock ?w1) [] ?items = 0"
    by (simp add: findOldest_def isConsidered_def scripted_defs)
  from lowestIndex_in_bounds [OF i t] l
  have "GetNodesToReap scriptedClock ?m (startWorld 100 [])
          \<noteq> (Inl (Panic ''index out of range''), ?w1)"
    by blast
  with i t f show ?thesis by blast
qed

section \<open>Runs of the selection\<close>

text \<open>
  C1, at a failing input: four nodes created at the instants 1 to 4, none with a
  deal-breaker pod, fraction 1/2, so that two nodes are to be reaped. Line 77 appends
  nothing to \<^verbatim>\<open>consideredNodes\<close>, the second scan finds the node \<open>a\<close> again, and
  \<open>a\<close> is queried twice and appended to \<open>reap\<close> twice; the second oldest node \<open>b\<close> is
  never considered.
\<close>

theorem GetNodesToReap_repeats_oldest:
  "GetNodesToReap scriptedClock
     \<lparr>config = settings 1 5 (1 / 2),
      nodeClient = scriptedClient
        (Inr [node ''a'' 1, node ''b'' 2, node ''c'' 3, node ''d'' 4])
        noError noError noError\<rparr>
     (startWorld 100 [])
   = (Inr ([''a'', ''a''], []),
      \<lparr>wnow = 100, answers = [],
       calls = [CallListNodes [], CallHasDealBreakerPods ''a'',
                CallHasDealBreakerPods ''a'']\<rparr>)"
  by (simp add: scripted_defs selection_defs)

text \<open>
  C2, at two failing inputs. One node, \<open>minNodes = 1\<close> and fraction 0: the count is 0,
  yet the node is queried and returned in \<open>reap\<close>. Two nodes and \<open>minNodes = 3\<close>: the
  count is \<open>-1\<close>, yet the oldest node is queried twice and returned twice in \<open>reap\<close>.
\<close>

theorem GetNodesToReap_reaps_without_target:
  "nodesToReapCount (settings 1 2 0) 1 = 0 \<and>
   GetNodesToReap scriptedClock
     \<lparr>config = settings 1 2 0,
      nodeClient = scriptedClient (Inr [node ''a'' 1]) noError noError noError\<rparr>
     (startWorld 100 [])
   = (Inr ([''a''], []),
      \<lparr>wnow = 100, answers = [],
       calls = [CallListNodes [], CallHasDealBreakerPods ''a'']\<rparr>) \<and>
   nodesToReapCount (settings 3 2 0) 2 = - 1 \<and>
   GetNodesToReap scriptedClock
     \<lparr>config = settings 3 2 0,
      nodeClient = scriptedClient (Inr [node ''a'' 1, node ''b'' 2])
                     noError noError noError\<rparr>
     (startWorld 100 [])
   = (Inr ([''a'', ''a''], []),
      \<lparr>wnow = 100, answers = [],
       calls = [CallListNodes [], CallHasDealBreakerPods ''a'',
                CallHasDealBreakerPods ''a'']\<rparr>)"
  by (simp add: scripted_defs selection_defs)

text \<open>
  C8, at two failing inputs. Two nodes, one node to reap, and the answers \<open>true\<close> then
  \<open>false\<close> to the two queries, both of which are about the node \<open>a\<close>: the name \<open>a\<close>
  is returned in \<open>passover\<close> and in \<open>reap\<close>. Two nodes with \<open>minNodes = 2\<close>, so that the
  count is 0, and the answers \<open>false\<close> then \<open>true\<close>: \<open>reap\<close> holds one name, more than
  the count, and \<open>a\<close> is again in both sequences.
\<close>

theorem GetNodesToReap_reap_meets_passover:
  "nodesToReapCount (settings 1 5 (1 / 2)) 2 = 1 \<and>
   GetNodesToReap scriptedClock
     \<lparr>config = settings 1 5 (1 / 2),
      nodeClient = scriptedClient (Inr [node ''a'' 1, node ''b'' 2])
                     noError noError noError\<rparr>
     (startWorld 100 [Inr True, Inr False])
   = (Inr ([''a''], [''a'']),
      \<lparr>wnow = 100, answers = [],
       calls = [CallListNodes [], CallHasDealBreakerPods ''a'',
                CallHasDealBreakerPods ''a'']\<rparr>) \<and>
   nodesToReapCount (settings 2 5 0) 2 = 0 \<and>
   GetNodesToReap scriptedClock
     \<lparr>config = settings 2 5 0,
      nodeClient = scriptedClient (Inr [node ''a'' 1, node ''b'' 2])
                     noError noError noError\<rparr>
     (startWorld 100 [Inr False, Inr True])
   = (Inr ([''a''], [''a'']),
      \<lparr>wnow = 100, answers = [],
       calls = [CallListNodes [], CallHasDealBreakerPods ''a'',
                CallHasDealBreakerPods ''a'']\<rparr>)"
  by (simp add: scripted_defs selection_defs)

section \<open>Marking\<close>

lemma worldAfterMarks_Nil: "worldAfterMarks m [] w = w"
  by (simp add: worldAfterMarks_def)

lemma worldAfterMarks_Cons:
  "worldAfterMarks m (n # nodes) w =
     worldAfterMarks m nodes (snd (MarkNodeToDrain (nodeClient m) n w))"
  by (simp add: worldAfterMarks_def)

lemma markResultAt_0:
  "markResultAt m (n # nodes) w 0 = fst (MarkNodeToDrain (nodeClient m) n w)"
  by (simp add: markResultAt_def worldAfterMarks_Nil)

lemma markResultAt_Suc:
  "markResultAt m (n # nodes) w (Suc i) =
     markResultAt m nodes (snd (MarkNodeToDrain (nodeClient m) n w)) i"
  by (simp add: markResultAt_def worldAfterMarks_Cons)

lemma MarkNodesForDestruction_nil:
  "MarkNodesForDestruction m nodes w = (None, w') \<Longrightarrow>
   (\<forall>i<length nodes. markResultAt m nodes w i = None) \<and> w' = worldAfterMarks m nodes w"
proof (induction nodes arbitrary: w)
  case Nil
  then show ?case by (simp add: worldAfterMarks_Nil)
next
  case (Cons n nodes)
  obtain r w1 where c: "MarkNodeToDrain (nodeClient m) n w = (r, w1)"
    by (cases "MarkNodeToDrain (nodeClient m) n w")
  with Cons.prems have r: "r = None"
    and rest: "MarkNodesForDestruction m nodes w1 = (None, w')"
    by (auto split: option.splits)
  from Cons.IH [OF rest] c r show ?case
    by (simp add: All_less_Suc2 markResultAt_0 markResultAt_Suc worldAfterMarks_Cons)
qed

lemma MarkNodesForDestruction_error:
  "MarkNodesForDestruction m nodes w = (Some err, w') \<Longrightarrow>
   \<exists>i<length nodes. (\<forall>j<i. markResultAt m nodes w j = None) \<and>
      markResultAt m nodes w i = Some err \<and> w' = worldAfterMarks m (take (Suc i) nodes) w"
proof (induction nodes arbitrary: w)
  case Nil
  then show ?case by simp
next
  case (Cons n nodes)
  obtain r w1 where c: "MarkNodeToDrain (nodeClient m) n w = (r, w1)"
    by (cases "MarkNodeToDrain (nodeClient m) n w")
  show ?case
  proof (cases r)
    case None
    with Cons.prems c have rest: "MarkNodesForDestruction m nodes w1 = (Some err, w')"
      by simp
    from Cons.IH [OF rest] obtain i where i: "i < length nodes"
      "\<forall>j<i. markResultAt m nodes w1 j = None" "markResultAt m nodes w1 i = Some err"
      "w' = worldAfterMarks m (take (Suc i) nodes) w1"
      by blast
    have "Suc i < length (n # nodes)" using i(1) by simp
    moreover have "\<forall>j<Suc i. markResultAt m (n # nodes) w j = None"
      using i(2) c None by (simp add: All_less_Suc2 markResultAt_0 markResultAt_Suc)
    moreover have "markResultAt m (n # nodes) w (Suc i) = Some err"
      using i(3) c by (simp add: markResultAt_Suc)
    moreover have "w' = worldAfterMarks m (take (Suc (Suc i)) (n # nodes)) w"
      using i(4) c by (simp add: worldAfterMarks_Cons)
    ultimately show ?thesis by blast
  next
    case (Some e)
    with Cons.prems c have "e = err" "w' = w1" by simp_all
    with c Some have "markResultAt m (n # nodes) w 0 = Some err \<and>
        w' = worldAfterMarks m (take (Suc 0) (n # nodes)) w"
      by (simp add: markResultAt_0 worldAfterMarks_Cons worldAfterMarks_Nil)
    then show ?thesis by auto
  qed
qed

text \<open>
  C10: \<^verbatim>\<open>MarkNodesForDestruction\<close> returns nil exactly when the mark of every name of
  the list, made in the order of the list, succeeds, and the world is then the one
  after all these marks. When it returns an error, this is the error of the first
  mark that fails, say the one at index \<open>i\<close>, every mark before it has succeeded, and
  the world is the one after the marks of the first \<open>i + 1\<close> names and nothing else: no
  later name is marked and no earlier mark is taken back.
\<close>

theorem MarkNodesForDestruction_prefix:
  "(fst (MarkNodesForDestruction m nodes w) = None \<longleftrightarrow>
      (\<forall>i<length nodes. markResultAt m nodes w i = None)) \<and>
   (fst (MarkNodesForDestruction m nodes w) = None \<longrightarrow>
      snd (MarkNodesForDestruction m nodes w) = worldAfterMarks m nodes w) \<and>
   (\<forall>err. fst (MarkNodesForDestruction m nodes w) = Some err \<longrightarrow>
      (\<exists>i<length nodes. (\<forall>j<i. markResultAt m nodes w j = None) \<and>
         markResultAt m nodes w i = Some err \<and>
         snd (MarkNodesForDestruction m nodes w)
           = worldAfterMarks m (take (Suc i) nodes) w))"
proof -
  obtain r w' where R: "MarkNodesForDestruction m nodes w = (r, w')"
    by (cases "MarkNodesForDestruction m nodes w")
  show ?thesis
  proof (cases r)
    case None
    with R MarkNodesForDestruction_nil [of m nodes w w'] show ?thesis by simp
  next
    case (Some e)
    with R MarkNodesForDestruction_error [of m nodes w e w'] show ?thesis by fastforce
  qed
qed

text \<open>
  C10, witness: the mark of \<open>b\<close> fails in the list \<open>a\<close>, \<open>b\<close>, \<open>c\<close>; the error is
  returned, \<open>a\<close> and \<open>b\<close> have been sent to the gateway and \<open>c\<close> has not.
\<close>

theorem MarkNodesForDestruction_prefix_witness:
  "fst (MarkNodesForDestruction
          (NewGrimReaper (settings 1 5 (1 / 2))
             (scriptedClient (Inr []) (failsOn ''b'') noError noError))
          [''a'', ''b'', ''c''] (startWorld 100 [])) = Some (New ''failed'') \<and>
   calls (snd (MarkNodesForDestruction
          (NewGrimReaper (settings 1 5 (1 / 2))
             (scriptedClient (Inr []) (failsOn ''b'') noError noError))
          [''a'', ''b'', ''c''] (startWorld 100 [])))
     = [CallMarkNodeToDrain ''a'', CallMarkNodeToDrain ''b''] \<and>
   (\<exists>i<length [''a'', ''b'', ''c''].
      (\<forall>j<i. markResultAt
          (NewGrimReaper (settings 1 5 (1 / 2))
             (scriptedClient (Inr []) (failsOn ''b'') noError noError))
          [''a'', ''b'', ''c''] (startWorld 100 []) j = None) \<and>
      markResultAt
          (NewGrimReaper (settings 1 5 (1 / 2))
             (scriptedClient (Inr []) (failsOn ''b'') noError noError))
          [''a'', ''b'', ''c''] (startWorld 100 []) i = Some (New ''failed'') \<and>
      snd (MarkNodesForDestruction
          (NewGrimReaper (settings 1 5 (1 / 2))
             (scriptedClient (Inr []) (failsOn ''b'') noError noError))
          [''a'', ''b'', ''c''] (startWorld 100 []))
        = worldAfterMarks
          (NewGrimReaper (settings 1 5 (1 / 2))
             (scriptedClient (Inr []) (failsOn ''b'') noError noError))
          (take (Suc i) [''a'', ''b'', ''c'']) (startWorld 100 []))"
proof -
  let ?m = "NewGrimReaper (settings 1 5 (1 / 2))
             (scriptedClient (Inr []) (failsOn ''b'') noError noError)"
  have r: "MarkNodesForDestruction ?m [''a'', ''b'', ''c''] (startWorld 100 [])
        = (Some (New ''failed''),
           \<lparr>wnow = 100, answers = [],
            calls = [CallMarkNodeToDrain ''a'', CallMarkNodeToDrain ''b'']\<rparr>)"
    by (simp add: NewGrimReaper_def scripted_defs failsOn_def)
  then have f: "fst (MarkNodesForDestruction ?m [''a'', ''b'', ''c''] (startWorld 100 []))
        = Some (New ''failed'')"
    by simp
  from MarkNodesForDestruction_prefix [of ?m "[''a'', ''b'', ''c'']" "startWorld 100 []"] f
  have "\<exists>i<length [''a'', ''b'', ''c''].
      (\<forall>j<i. markResultAt ?m [''a'', ''b'', ''c''] (startWorld 100 []) j = None) \<and>
      markResultAt ?m [''a'', ''b'', ''c''] (startWorld 100 []) i = Some (New ''failed'') \<and>
      snd (MarkNodesForDestruction ?m [''a'', ''b'', ''c''] (startWorld 100 []))
        = worldAfterMarks ?m (take (Suc i) [''a'', ''b'', ''c'']) (startWorld 100 [])"
    by blast
  with r show ?thesis by simp
qed

section \<open>The run\<close>

lemma harvestLoop_append:
  "harvestLoop clk r pre w = (None, w1) \<Longrightarrow>
   harvestLoop clk r (pre @ rest) w = harvestLoop clk r rest w1"
proof (induction pre arbitrary: w)
  case Nil
  then show ?case by simp
next
  case (Cons n pre)
  obtain e w' where h: "Harvest clk r n w = (e, w')"
    by (cases "Harvest clk r n w")
  with Cons.prems have "e = None" and "harvestLoop clk r pre w' = (None, w1)"
    by (auto split: option.splits)
  with Cons.IH [of w'] h show ?case by simp
qed

lemma harvestLoop_stops:
  assumes "harvestLoop clk r pre w = (None, w1)"
    and "Harvest clk r n w1 = (Some err, w2)"
  shows "harvestLoop clk r (pre @ n # post) w = (Some err, w2)"
  using harvestLoop_append [OF assms(1), of "n # post"] assms(2) by simp

text \<open>
  C4, as stated, fails: with \<open>a\<close> and \<open>b\<close> to harvest, when the cordon of \<open>a\<close> fails
  the loop returns that error after the one call, and when the drain of \<open>a\<close> fails it
  returns after the cordon, the delay and the drain of \<open>a\<close>; in both runs no call
  is made for \<open>b\<close>.
\<close>

theorem harvest_failure_ends_run:
  "harvestLoop scriptedClock
     (NewGrimReaper (settings 1 5 (1 / 2))
        (scriptedClient (Inr []) noError (failsOn ''a'') noError))
     [''a'', ''b''] (startWorld 100 [])
   = (Some (New ''failed''),
      \<lparr>wnow = 100, answers = [], calls = [CallCordonNode ''a'']\<rparr>) \<and>
   harvestLoop scriptedClock
     (NewGrimReaper (settings 1 5 (1 / 2))
        (scriptedClient (Inr []) noError noError (failsOn ''a'')))
     [''a'', ''b''] (startWorld 100 [])
   = (Some (New ''failed''),
      \<lparr>wnow = 60000000100, answers = [],
       calls = [CallCordonNode ''a'', CallSleep 60000000000, CallDrainNode ''a'']\<rparr>)"
  by (simp add: NewGrimReaper_def Harvest_def scripted_defs failsOn_def)

text \<open>
  C4, amended: when the harvest of a selected node fails, after the harvests of the
  nodes before it have succeeded, \<^verbatim>\<open>runGrimReaper\<close> returns the error of that harvest
  and the world is the one that this harvest left: no node after it is harvested.
\<close>

theorem runGrimReaper_stops_at_first_failure:
  assumes "GetNodesToReap clk (NewGrimReaper cfg nc) w = (Inr (pre @ n # post, passover), w0)"
    and "MarkNodesForDestruction (NewGrimReaper cfg nc) (pre @ n # post) w0 = (None, w1)"
    and "harvestLoop clk (NewGrimReaper cfg nc) pre w1 = (None, w2)"
    and "Harvest clk (NewGrimReaper cfg nc) n w2 = (Some err, w3)"
  shows "runGrimReaper clk cfg nc w = (Some (Err err), w3)"
  using assms(1,2) harvestLoop_stops [OF assms(3,4), of post]
  by (simp add: runGrimReaper_def Let_def)

text \<open>
  C4, witness: a run on four nodes in which the cordon of \<open>a\<close> fails; the log ends
  with that call.
\<close>

theorem runGrimReaper_stops_at_first_failure_witness:
  "runGrimReaper scriptedClock (settings 1 5 (1 / 2))
     (scriptedClient (Inr [node ''a'' 1, node ''b'' 2, node ''c'' 3, node ''d'' 4])
        noError (failsOn ''a'') noError)
     (startWorld 100 [])
   = (Some (Err (New ''failed'')),
      \<lparr>wnow = 100, answers = [],
       calls = [CallListNodes [], CallHasDealBreakerPods ''a'', CallHasDealBreakerPods ''a'',
                CallMarkNodeToDrain ''a'', CallMarkNodeToDrain ''a'', CallCordonNode ''a'']\<rparr>)"
proof -
  let ?cfg = "settings 1 5 (1 / 2)"
  let ?nc = "scriptedClient (Inr [node ''a'' 1, node ''b'' 2, node ''c'' 3, node ''d'' 4])
        noError (failsOn ''a'') noError"
  let ?w0 = "\<lparr>wnow = 100, answers = [],
       calls = [CallListNodes [], CallHasDealBreakerPods ''a'', CallHasDealBreakerPods ''a'']\<rparr>"
  let ?w1 = "\<lparr>wnow = 100, answers = [],
       calls = [CallListNodes [], CallHasDealBreakerPods ''a'', CallHasDealBreakerPods ''a'',
                CallMarkNodeToDrain ''a'', CallMarkNodeToDrain ''a'']\<rparr>"
  let ?w3 = "\<lparr>wnow = 100, answers = [],
       calls = [CallListNodes [], CallHasDealBreakerPods ''a'', CallHasDealBreakerPods ''a'',
                CallMarkNodeToDrain ''a'', CallMarkNodeToDrain ''a'', CallCordonNode ''a'']\<rparr>"
  have s: "GetNodesToReap scriptedClock (NewGrimReaper ?cfg ?nc) (startWorld 100 [])
             = (Inr ([] @ ''a'' # [''a''], []), ?w0)"
    by (simp add: NewGrimReaper_def scripted_defs selection_defs)
  have k: "MarkNodesForDestruction (NewGrimReaper ?cfg ?nc) ([] @ ''a'' # [''a'']) ?w0
             = (None, ?w1)"
    by (simp add: NewGrimReaper_def scripted_defs)
  have p: "harvestLoop scriptedClock (NewGrimReaper ?cfg ?nc) [] ?w1 = (None, ?w1)"
    by simp
  have h: "Harvest scriptedClock (NewGrimReaper ?cfg ?nc) ''a'' ?w1
             = (Some (New ''failed''), ?w3)"
    by (simp add: NewGrimReaper_def Harvest_def scripted_defs failsOn_def)
  from runGrimReaper_stops_at_first_failure [OF s k p h] show ?thesis .
qed


section \<open>The eviction guard\<close>

text \<open>
  C5, as stated, fails: on a lookup error other than not-found \<^verbatim>\<open>shouldEvict\<close>
  returns \<open>false\<close>, the very value it returns for a DaemonSet that exists, and its
  caller \<^verbatim>\<open>listPodsToEvict\<close> returns an empty list of pods with a nil error.
\<close>

theorem shouldEvict_hides_lookup_error:
  "shouldEvict (podEvictor (\<lambda>namespace name. Some serverError) (Inr [daemonPod ''p'' ''ds'']))
     (daemonPod ''p'' ''ds'') (podStart 0 [])
   = (Some False, \<lparr>pnow = 0, responses = [], requests = [], lookups = [(''kube-system'', ''ds'')]\<rparr>) \<and>
   shouldEvict (podEvictor (\<lambda>namespace name. None) (Inr [daemonPod ''p'' ''ds'']))
     (daemonPod ''p'' ''ds'') (podStart 0 [])
   = (Some False, \<lparr>pnow = 0, responses = [], requests = [], lookups = [(''kube-system'', ''ds'')]\<rparr>) \<and>
   listPodsToEvict (podEvictor (\<lambda>namespace name. Some serverError) (Inr [daemonPod ''p'' ''ds'']))
     ''n1'' (podStart 0 [])
   = (Some (Inr []), \<lparr>pnow = 0, responses = [], requests = [], lookups = [(''kube-system'', ''ds'')]\<rparr>)"
  by (simp add: pod_defs shouldEvict_def daemonsetExists_def getPodDaemonSet_def
      GetControllerOf_def listPodsToEvict_def)

text \<open>
  C5, amended: for every pod whose controller is a DaemonSet, \<^verbatim>\<open>shouldEvict\<close>
  returns \<open>false\<close> when the lookup of the owner succeeds and also when it fails with an
  error other than not-found; the result is a \<^verbatim>\<open>bool\<close> and carries no error.
\<close>

theorem shouldEvict_refuses_without_error:
  assumes "getPodDaemonSet pod = (True, daemonSetName)"
    and "GetDaemonSet (client m) (Namespace pod) daemonSetName w = (r, w')"
    and "r = None \<or> (\<exists>err. r = Some err \<and> \<not> IsNotFound err)"
  shows "shouldEvict m pod w = (Some False, w')"
  using assms by (auto simp add: shouldEvict_def daemonsetExists_def)

text \<open>
  C5, witness: a pod of the DaemonSet \<open>ds\<close> whose lookup fails with a server error.
\<close>

theorem shouldEvict_refuses_without_error_witness:
  "getPodDaemonSet (daemonPod ''p'' ''ds'') = (True, ''ds'') \<and>
   \<not> IsNotFound serverError \<and>
   shouldEvict (podEvictor (\<lambda>namespace name. Some serverError) (Inr []))
     (daemonPod ''p'' ''ds'') (podStart 0 [])
   = (Some False, \<lparr>pnow = 0, responses = [], requests = [], lookups = [(''kube-system'', ''ds'')]\<rparr>)"
proof -
  let ?m = "podEvictor (\<lambda>namespace name. Some serverError) (Inr [])"
  let ?w' = "\<lparr>pnow = 0, responses = [], requests = [], lookups = [(''kube-system'', ''ds'')]\<rparr>"
  have a: "getPodDaemonSet (daemonPod ''p'' ''ds'') = (True, ''ds'')"
    by (simp add: getPodDaemonSet_def GetControllerOf_def daemonPod_def)
  have b: "GetDaemonSet (client ?m) (Namespace (daemonPod ''p'' ''ds'')) ''ds'' (podStart 0 [])
             = (Some serverError, ?w')"
    by (simp add: pod_defs)
  have n: "\<not> IsNotFound serverError"
    by (simp add: serverError_def)
  then have c: "Some serverError = None \<or> (\<exists>err. Some serverError = Some err \<and> \<not> IsNotFound err)"
    by simp
  from shouldEvict_refuses_without_error [OF a b c] a n show ?thesis by simp
qed

text \<open>
  When the lookup reports not-found, the run of \<^verbatim>\<open>shouldEvict\<close> reaches the end of
  the function body, where the source returns nothing.
\<close>

lemma shouldEvict_not_found_no_value:
  "shouldEvict (podEvictor (\<lambda>namespace name. Some notFound) (Inr []))
     (daemonPod ''p'' ''ds'') (podStart 0 [])
   = (None, \<lparr>pnow = 0, responses = [], requests = [],
              lookups = [(''kube-system'', ''ds'')]\<rparr>)"
  by (simp add: pod_defs shouldEvict_def daemonsetExists_def getPodDaemonSet_def
      GetControllerOf_def)

section \<open>The eviction executor\<close>

lemma evictLoop_aborted:
  "abort w \<Longrightarrow> evictLoop clk m pod abort w = Some (Some (New ''pod eviction aborted''), w)"
  by (subst evictLoop.simps) simp

lemma evictLoop_unclear:
  "\<not> abort w \<Longrightarrow> Evict (client m) (evictOptionsOf m pod) w = (None, w') \<Longrightarrow>
   evictLoop clk m pod abort w = Some (Some (New (unclearMessage pod)), w')"
  by (subst evictLoop.simps) simp

lemma evictLoop_not_found:
  "\<not> abort w \<Longrightarrow> Evict (client m) (evictOptionsOf m pod) w = (Some err, w') \<Longrightarrow>
   IsNotFound err \<Longrightarrow> evictLoop clk m pod abort w = Some (None, w')"
  by (subst evictLoop.simps) simp

lemma evictLoop_failed:
  "\<not> abort w \<Longrightarrow> Evict (client m) (evictOptionsOf m pod) w = (Some err, w') \<Longrightarrow>
   \<not> IsNotFound err \<Longrightarrow> \<not> IsTooManyRequests err \<Longrightarrow>
   evictLoop clk m pod abort w = Some (Some (Wrap err (evictFailedMessage pod)), w')"
  by (subst evictLoop.simps) simp

lemma evictLoop_retry:
  "\<not> abort w \<Longrightarrow> Evict (client m) (evictOptionsOf m pod) w = (Some err, w') \<Longrightarrow>
   \<not> IsNotFound err \<Longrightarrow> IsTooManyRequests err \<Longrightarrow>
   evictLoop clk m pod abort w = evictLoop clk m pod abort (timeSleep clk (5 * Second) w')"
  by (subst evictLoop.simps) simp

text \<open>
  A gateway that throttles every request, with an abort channel that is never closed:
  \<^verbatim>\<open>evict\<close> never returns.
\<close>

lemma evictLoop_throttled_forever:
  assumes never: "\<And>w. \<not> abort w"
    and thr: "\<And>w. \<exists>err w'. Evict (client m) (evictOptionsOf m pod) w = (Some err, w') \<and>
                 \<not> IsNotFound err \<and> IsTooManyRequests err"
  shows "evictLoop clk m pod abort w = None"
proof (cases "evictLoop clk m pod abort w")
  case None
  then show ?thesis .
next
  case (Some y)
  have "m = m \<and> pod = pod \<and> abort = abort \<longrightarrow> False"
  proof (rule evictLoop.raw_induct
      [where P = "\<lambda>c m' p a w y. m' = m \<and> p = pod \<and> a = abort \<longrightarrow> False", OF _ Some])
    fix f :: "'a Clock \<Rightarrow> 'a kubernetesPodEvictor \<Rightarrow> Pod \<Rightarrow> ('a \<Rightarrow> bool) \<Rightarrow> 'a \<Rightarrow>
              (error option \<times> 'a) option"
    fix c m' p a v r
    assume IH: "\<And>c' m'' p' a' v' y'. f c' m'' p' a' v' = Some y' \<Longrightarrow>
                  m'' = m \<and> p' = pod \<and> a' = abort \<longrightarrow> False"
      and body: "(if a v then Some (Some (New ''pod eviction aborted''), v)
       else case Evict (client m') (evictOptionsOf m' p) v of
            (None, w') \<Rightarrow> Some (Some (New (unclearMessage p)), w')
            | (Some err, w') \<Rightarrow>
                if IsNotFound err then Some (None, w')
                else if \<not> IsTooManyRequests err
                     then Some (Some (Wrap err (evictFailedMessage p)), w')
                     else f c m' p a (timeSleep c (5 * Second) w')) = Some r"
    show "m' = m \<and> p = pod \<and> a = abort \<longrightarrow> False"
    proof (intro impI, elim conjE)
      assume eqs: "m' = m" "p = pod" "a = abort"
      from thr obtain err w' where
        e: "Evict (client m) (evictOptionsOf m pod) v = (Some err, w')"
           "\<not> IsNotFound err" "IsTooManyRequests err"
        by blast
      from body eqs never [of v] e
      have "f c m pod abort (timeSleep c (5 * Second) w') = Some r"
        by simp
      from IH [OF this] show False by simp
    qed
  qed
  then show ?thesis by simp
qed

text \<open>
  C6: with the abort channel closed \<^verbatim>\<open>evict\<close> returns the abort error. Otherwise it
  sends the eviction request and classifies the response: no error at all gives the
  error "unable to tell", which is not the wrapped error of a failed request;
  not-found gives nil; too-many-requests makes \<^verbatim>\<open>evict\<close> sleep 5 seconds and start
  over from the world after the sleep, with no bound on the number of rounds; any other
  error is returned wrapped.
\<close>

theorem evict_classifies:
  "(abort w \<longrightarrow> evict clk m pod abort w = Some (Some (New ''pod eviction aborted''), w)) \<and>
   (\<not> abort w \<longrightarrow>
      (case Evict (client m) (evictOptionsOf m pod) w of
         (None, w') \<Rightarrow>
           evict clk m pod abort w = Some (Some (New (unclearMessage pod)), w') \<and>
           (\<forall>err. New (unclearMessage pod) \<noteq> Wrap err (evictFailedMessage pod))
       | (Some err, w') \<Rightarrow>
           (if IsNotFound err then evict clk m pod abort w = Some (None, w')
            else if IsTooManyRequests err
            then evict clk m pod abort w = evict clk m pod abort (timeSleep clk (5 * Second) w')
            else evict clk m pod abort w = Some (Some (Wrap err (evictFailedMessage pod)), w'))))"
proof (intro conjI impI)
  assume "abort w"
  then show "evict clk m pod abort w = Some (Some (New ''pod eviction aborted''), w)"
    by (simp add: evict_def evictLoop_aborted)
next
  assume na: "\<not> abort w"
  obtain r w' where e: "Evict (client m) (evictOptionsOf m pod) w = (r, w')"
    by (cases "Evict (client m) (evictOptionsOf m pod) w")
  show "case Evict (client m) (evictOptionsOf m pod) w of
         (None, w') \<Rightarrow>
           evict clk m pod abort w = Some (Some (New (unclearMessage pod)), w') \<and>
           (\<forall>err. New (unclearMessage pod) \<noteq> Wrap err (evictFailedMessage pod))
       | (Some err, w') \<Rightarrow>
           (if IsNotFound err then evict clk m pod abort w = Some (None, w')
            else if IsTooManyRequests err
            then evict clk m pod abort w = evict clk m pod abort (timeSleep clk (5 * Second) w')
            else evict clk m pod abort w = Some (Some (Wrap err (evictFailedMessage pod)), w'))"
  proof (cases r)
    case None
    with na e show ?thesis by (simp add: evict_def evictLoop_unclear)
  next
    case (Some err)
    with na e show ?thesis
      by (simp add: evict_def evictLoop_not_found evictLoop_failed evictLoop_retry)
  qed
qed

text \<open>
  C6, witness: a throttled request followed by not-found gives nil after one sleep of
  5 seconds; no error gives "unable to tell"; a server error is returned wrapped; with
  the deadline reached no request is sent.
\<close>

theorem evict_classifies_witness:
  "evict podClock (podEvictor (\<lambda>namespace name. None) (Inr [])) (plainPod ''p'')
     (abortAt 300000000000)
     (podStart 0 [Some throttled, Some notFound])
   = Some (None, \<lparr>pnow = 5000000000, responses = [],
                  requests = [evictionOf ''p'', evictionOf ''p''], lookups = []\<rparr>) \<and>
   evict podClock (podEvictor (\<lambda>namespace name. None) (Inr [])) (plainPod ''p'')
     (abortAt 300000000000)
     (podStart 0 [None])
   = Some (Some (New ''unable to tell if pod p in namespace default was evicted''),
           \<lparr>pnow = 0, responses = [], requests = [evictionOf ''p''], lookups = []\<rparr>) \<and>
   evict podClock (podEvictor (\<lambda>namespace name. None) (Inr [])) (plainPod ''p'')
     (abortAt 300000000000)
     (podStart 0 [Some serverError])
   = Some (Some (Wrap serverError ''error evicting pod p from namespace default''),
           \<lparr>pnow = 0, responses = [], requests = [evictionOf ''p''], lookups = []\<rparr>) \<and>
   evict podClock (podEvictor (\<lambda>namespace name. None) (Inr [])) (plainPod ''p'')
     (abortAt 300000000000)
     (podStart 300000000000 [Some notFound])
   = Some (Some (New ''pod eviction aborted''), podStart 300000000000 [Some notFound])"
proof -
  let ?m = "podEvictor (\<lambda>namespace name. None) (Inr [])"
  let ?p = "plainPod ''p''"
  let ?a = "abortAt 300000000000"
  let ?w0 = "podStart 0 [Some throttled, Some notFound]"
  let ?w0' = "\<lparr>pnow = 0, responses = [Some notFound],
             requests = [evictionOf ''p''], lookups = []\<rparr>"
  let ?w1 = "\<lparr>pnow = 5000000000, responses = [Some notFound],
             requests = [evictionOf ''p''], lookups = []\<rparr>"
  let ?w2 = "\<lparr>pnow = 5000000000, responses = [],
             requests = [evictionOf ''p'', evictionOf ''p''], lookups = []\<rparr>"
  let ?v = "\<lparr>pnow = 0, responses = [], requests = [evictionOf ''p''], lookups = []\<rparr>"
  have opts: "evictOptionsOf ?m ?p = evictionOf ''p''"
    by (simp add: evict_defs evictionOf_def podEvictor_def plainPod_def)
  have cl: "client ?m = scriptedPodClient (\<lambda>namespace name. None) (Inr [])"
    by (simp add: podEvictor_def)
  have msgs: "unclearMessage ?p = ''unable to tell if pod p in namespace default was evicted''"
    "evictFailedMessage ?p = ''error evicting pod p from namespace default''"
    by (simp_all add: unclearMessage_def evictFailedMessage_def plainPod_def)
  have kinds: "\<not> IsNotFound throttled" "IsTooManyRequests throttled" "IsNotFound notFound"
    "\<not> IsNotFound serverError" "\<not> IsTooManyRequests serverError"
    by (simp_all add: throttled_def notFound_def serverError_def)
  have a0: "\<not> ?a ?w0" and a1: "\<not> ?a ?w1" and a3: "\<not> ?a (podStart 0 [None])"
    and a4: "\<not> ?a (podStart 0 [Some serverError])"
    and a5: "?a (podStart 300000000000 [Some notFound])"
    by (simp_all add: abortAt_def podStart_def)
  have e0: "Evict (client ?m) (evictOptionsOf ?m ?p) ?w0 = (Some throttled, ?w0')"
    unfolding opts cl by (simp add: scriptedPodClient_def podStart_def)
  have e1: "Evict (client ?m) (evictOptionsOf ?m ?p) ?w1 = (Some notFound, ?w2)"
    unfolding opts cl by (simp add: scriptedPodClient_def)
  have e3: "Evict (client ?m) (evictOptionsOf ?m ?p) (podStart 0 [None]) = (None, ?v)"
    unfolding opts cl by (simp add: scriptedPodClient_def podStart_def)
  have e4: "Evict (client ?m) (evictOptionsOf ?m ?p) (podStart 0 [Some serverError])
              = (Some serverError, ?v)"
    unfolding opts cl by (simp add: scriptedPodClient_def podStart_def)
  have sl: "timeSleep podClock (5 * Second) ?w0' = ?w1"
    by (simp add: podClock_def Second_def)
  have s1: "evict podClock ?m ?p ?a ?w0 = evict podClock ?m ?p ?a ?w1"
    using evict_classifies [of ?a ?w0 podClock ?m ?p] a0 e0 kinds sl by simp
  have s2: "evict podClock ?m ?p ?a ?w1 = Some (None, ?w2)"
    using evict_classifies [of ?a ?w1 podClock ?m ?p] a1 e1 kinds by simp
  have s3: "evict podClock ?m ?p ?a (podStart 0 [None])
              = Some (Some (New (unclearMessage ?p)), ?v)"
    using evict_classifies [of ?a "podStart 0 [None]" podClock ?m ?p] a3 e3 by simp
  have s4: "evict podClock ?m ?p ?a (podStart 0 [Some serverError])
              = Some (Some (Wrap serverError (evictFailedMessage ?p)), ?v)"
    using evict_classifies [of ?a "podStart 0 [Some serverError]" podClock ?m ?p] a4 e4 kinds
    by simp
  have s5: "evict podClock ?m ?p ?a (podStart 300000000000 [Some notFound])
              = Some (Some (New ''pod eviction aborted''), podStart 300000000000 [Some notFound])"
    using evict_classifies [of ?a "podStart 300000000000 [Some notFound]" podClock ?m ?p] a5
    by simp
  from s1 s2 s3 s4 s5 msgs show ?thesis by simp
qed

end
